theory Spec2Isabelle
  imports Main
begin

section \<open>wsutil: a WebSocket reverse proxy\<close>

text \<open>
  A shallow embedding of \<^verbatim>\<open>wsutil.go\<close>. Go strings are byte sequences and are
  modelled as \<^typ>\<open>string\<close> (lists of 8-bit characters). Pointers are addresses into
  an explicit store, because \<^verbatim>\<open>ServeHTTP\<close> copies a request struct whose
  \<^verbatim>\<open>URL\<close> field is a pointer and the Director writes through that pointer.
\<close>

subsection \<open>The string functions of the standard library that the code calls\<close>

text \<open>\<^verbatim>\<open>strings.HasPrefix\<close>, \<^verbatim>\<open>strings.HasSuffix\<close> and
  \<^verbatim>\<open>strings.Contains\<close> on byte strings.\<close>

definition HasPrefix :: "string \<Rightarrow> string \<Rightarrow> bool" where
  "HasPrefix s prefix = (length prefix \<le> length s \<and> take (length prefix) s = prefix)"

definition HasSuffix :: "string \<Rightarrow> string \<Rightarrow> bool" where
  "HasSuffix s suffix =
     (length suffix \<le> length s \<and> drop (length s - length suffix) s = suffix)"

fun Contains :: "string \<Rightarrow> string \<Rightarrow> bool" where
  "Contains [] substr = (substr = [])"
| "Contains (c # cs) substr = (HasPrefix (c # cs) substr \<or> Contains cs substr)"

text \<open>
  \<^verbatim>\<open>strings.ToLower\<close>. A string of ASCII bytes only is lowered byte by byte
  (\<^verbatim>\<open>c += 'a' - 'A'\<close> for \<^verbatim>\<open>'A' <= c <= 'Z'\<close>). A string with a byte
  \<^verbatim>\<open>>= 0x80\<close> goes through \<^verbatim>\<open>strings.Map(unicode.ToLower, s)\<close>, which
  needs the Unicode case tables; that mapping is the parameter \<open>unicodeLower\<close>.
\<close>

definition isASCII :: "string \<Rightarrow> bool" where
  "isASCII s = list_all (\<lambda>c. (of_char c :: nat) < 128) s"

definition isUpperByte :: "char \<Rightarrow> bool" where
  "isUpperByte c = (65 \<le> (of_char c :: nat) \<and> (of_char c :: nat) \<le> 90)"

definition isLowerByte :: "char \<Rightarrow> bool" where
  "isLowerByte c = (97 \<le> (of_char c :: nat) \<and> (of_char c :: nat) \<le> 122)"

definition lowerByte :: "char \<Rightarrow> char" where
  "lowerByte c = (if isUpperByte c then char_of ((of_char c :: nat) + 32) else c)"

definition upperByte :: "char \<Rightarrow> char" where
  "upperByte c = (if isLowerByte c then char_of ((of_char c :: nat) - 32) else c)"

definition ToLower :: "(string \<Rightarrow> string) \<Rightarrow> string \<Rightarrow> string" where
  "ToLower unicodeLower s = (if isASCII s then map lowerByte s else unicodeLower s)"

subsection \<open>Headers\<close>

text \<open>
  \<^verbatim>\<open>http.Header\<close> is \<^verbatim>\<open>map[string][]string\<close>. \<^verbatim>\<open>Header.Get(key)\<close>
  canonicalises the key (\<^verbatim>\<open>textproto.CanonicalMIMEHeaderKey\<close>) and returns the
  first value stored under it, or the empty string when there is none. A key with a byte
  that is not a header token byte is left as it is; otherwise the first letter and every
  letter after a hyphen are upper-cased and all other letters lower-cased.
\<close>

type_synonym header = "string \<rightharpoonup> string list"

definition validHeaderFieldByte :: "char \<Rightarrow> bool" where
  "validHeaderFieldByte c =
     (let n = (of_char c :: nat) in
        (48 \<le> n \<and> n \<le> 57) \<or> isUpperByte c \<or> isLowerByte c \<or>
        n \<in> set [33, 35, 36, 37, 38, 39, 42, 43, 45, 46, 94, 95, 96, 124, 126])"

fun canonicalise :: "bool \<Rightarrow> string \<Rightarrow> string" where
  "canonicalise upper [] = []"
| "canonicalise upper (c # cs) =
     (let c' = (if upper then upperByte c else lowerByte c)
      in c' # canonicalise (c' = CHR ''-'') cs)"

definition CanonicalMIMEHeaderKey :: "string \<Rightarrow> string" where
  "CanonicalMIMEHeaderKey s =
     (if list_all validHeaderFieldByte s then canonicalise True s else s)"

definition Get :: "header \<Rightarrow> string \<Rightarrow> string" where
  "Get h key =
     (case h (CanonicalMIMEHeaderKey key) of
        None \<Rightarrow> []
      | Some [] \<Rightarrow> []
      | Some (v # vs) \<Rightarrow> v)"

subsection \<open>Requests, URLs and the store\<close>

text \<open>
  \<^verbatim>\<open>url.URL\<close> and the fields of \<^verbatim>\<open>http.Request\<close> that matter here. In
  \<^verbatim>\<open>http.Request\<close> the field \<^verbatim>\<open>URL\<close> is a \<^verbatim>\<open>*url.URL\<close>: an
  address in the store. \<^verbatim>\<open>User\<close> and \<^verbatim>\<open>Body\<close> are references that this
  package never follows. The header map is never written by this package, so it is kept
  as a value.
\<close>

record URL =
  Scheme :: string
  Opaque :: string
  User :: "nat option"
  Host :: string
  Path :: string
  RawPath :: string
  RawQuery :: string
  Fragment :: string

record Request =
  Method :: string
  URL :: nat
  Proto :: string
  Header :: header
  Body :: "nat option"
  RequestURI :: string

text \<open>
  The store: the \<^verbatim>\<open>url.URL\<close> objects and the \<^verbatim>\<open>http.Request\<close> objects by
  address, and the next free request address for \<^verbatim>\<open>new(http.Request)\<close>. An
  address with no object stands for \<^verbatim>\<open>nil\<close>: reading or writing through it is
  the nil-pointer panic of Go.
\<close>

record store =
  urls :: "nat \<rightharpoonup> URL"
  reqs :: "nat \<rightharpoonup> Request"
  nextReq :: nat

datatype error = NilPointerDereference

definition updURL :: "store \<Rightarrow> nat \<Rightarrow> (URL \<Rightarrow> URL) \<Rightarrow> store" where
  "updURL s a f = (case urls s a of None \<Rightarrow> s | Some u \<Rightarrow> s\<lparr>urls := (urls s)(a \<mapsto> f u)\<rparr>)"

definition getURL :: "store \<Rightarrow> nat \<Rightarrow> URL" where
  "getURL s a = the (urls s a)"

subsection \<open>singleJoiningSlash\<close>

definition singleJoiningSlash :: "string \<Rightarrow> string \<Rightarrow> string" where
  "singleJoiningSlash a b =
     (let aslash = HasSuffix a ''/'';
          bslash = HasPrefix b ''/''
      in if aslash \<and> bslash then a @ drop 1 b
         else if \<not> aslash \<and> \<not> bslash then a @ ''/'' @ b
         else a @ b)"

subsection \<open>NewSingleHostReverseProxy and its Director\<close>

text \<open>
  The closure \<^verbatim>\<open>director\<close> captures the pointer \<^verbatim>\<open>target\<close> and the string
  \<^verbatim>\<open>targetQuery\<close>, read from the target when the proxy is built. Its four
  assignments run in order, each reading the store the previous one left; they panic
  when \<^verbatim>\<open>req\<close>, \<^verbatim>\<open>req.URL\<close> or \<^verbatim>\<open>target\<close> is nil.
\<close>

definition director :: "nat \<Rightarrow> string \<Rightarrow> store \<Rightarrow> nat \<Rightarrow> error + store" where
  "director target targetQuery s req =
     (case reqs s req of
        None \<Rightarrow> Inl NilPointerDereference
      | Some rq \<Rightarrow>
          (if urls s (URL rq) = None \<or> urls s target = None then Inl NilPointerDereference
           else
             let u = URL rq;
                 s1 = updURL s u (\<lambda>x. x\<lparr>Scheme := Scheme (getURL s target)\<rparr>);
                 s2 = updURL s1 u (\<lambda>x. x\<lparr>Host := Host (getURL s1 target)\<rparr>);
                 s3 = updURL s2 u
                        (\<lambda>x. x\<lparr>Path := singleJoiningSlash (Path (getURL s2 target)) (Path x)\<rparr>);
                 s4 = (if targetQuery = [] \<or> RawQuery (getURL s3 u) = []
                       then updURL s3 u (\<lambda>x. x\<lparr>RawQuery := targetQuery @ RawQuery x\<rparr>)
                       else updURL s3 u
                              (\<lambda>x. x\<lparr>RawQuery := targetQuery @ ''&'' @ RawQuery x\<rparr>))
             in Inr s4))"

text \<open>Connections and errors of the environment are opaque identifiers.\<close>

type_synonym conn = nat
type_synonym err = string

record ReverseProxy =
  Director :: "store \<Rightarrow> nat \<Rightarrow> error + store"
  Dial :: "(string \<Rightarrow> string \<Rightarrow> err + conn) option"
  ErrorLog :: "nat option"

definition NewSingleHostReverseProxy :: "store \<Rightarrow> nat \<Rightarrow> error + ReverseProxy" where
  "NewSingleHostReverseProxy s target =
     (case urls s target of
        None \<Rightarrow> Inl NilPointerDereference
      | Some t \<Rightarrow>
          Inr \<lparr>Director = director target (RawQuery t), Dial = None, ErrorLog = None\<rparr>)"

subsection \<open>IsWebSocketRequest\<close>

definition IsWebSocketRequest :: "(string \<Rightarrow> string) \<Rightarrow> Request \<Rightarrow> bool" where
  "IsWebSocketRequest unicodeLower r =
     (if ToLower unicodeLower (Get (Header r) ''Connection'') \<noteq> ''upgrade'' then False
      else if ToLower unicodeLower (Get (Header r) ''Upgrade'') \<noteq> ''websocket'' then False
      else True)"

subsection \<open>ServeHTTP\<close>

text \<open>
  The \<^verbatim>\<open>http.ResponseWriter\<close>: the response headers, the status written (if any),
  the body written, and what \<^verbatim>\<open>w.(http.Hijacker)\<close> and \<^verbatim>\<open>Hijack()\<close> give:
  \<open>None\<close> when the writer is no Hijacker, otherwise the error or the client
  connection that \<^verbatim>\<open>Hijack()\<close> returns.
\<close>

record ResponseWriter =
  wHeader :: header
  wStatus :: "nat option"
  wBody :: string
  hijacker :: "(err + conn) option"

text \<open>
  \<^verbatim>\<open>http.Error(w, error, code)\<close> of net/http: sets the content type to plain text,
  writes the status line (the first status written stands) and prints the message and a
  newline as the body.
\<close>

definition http_Error :: "ResponseWriter \<Rightarrow> string \<Rightarrow> nat \<Rightarrow> ResponseWriter" where
  "http_Error w msg code =
     w\<lparr>wHeader := (wHeader w)(''Content-Type'' \<mapsto> [''text/plain; charset=utf-8''],
                               ''X-Content-Type-Options'' \<mapsto> [''nosniff'']),
        wStatus := (case wStatus w of None \<Rightarrow> Some code | Some c \<Rightarrow> Some c),
        wBody := wBody w @ msg @ [CHR 0x0A]\<rparr>"

text \<open>
  What the environment answers: \<^verbatim>\<open>net.Dial\<close>, the result of
  \<^verbatim>\<open>outreq.Write(d)\<close>, and whether one of the two copying goroutines ever sends
  on \<^verbatim>\<open>errc\<close> (when none does, \<^verbatim>\<open><-errc\<close> blocks for ever).
\<close>

record env =
  netDial :: "string \<Rightarrow> string \<Rightarrow> err + conn"
  writeResult :: "err option"
  relayDone :: bool

text \<open>
  The calls \<^verbatim>\<open>ServeHTTP\<close> makes on the outside world, in order. A log call
  carries the logger (\<open>None\<close> for the standard logger of package log), the format
  and the arguments.
\<close>

datatype logarg = ArgURL URL | ArgErr err

datatype event =
    DialCall string string
  | LogCall "nat option" string "logarg list"
  | HijackCall
  | WriteCall conn nat
  | GoCopy conn conn
  | CloseCall conn

datatype outcome = Returned | Panicked error | Blocked

text \<open>Lines 77 to 81: the address dialled for the rewritten host.\<close>

definition dialHost :: "string \<Rightarrow> string" where
  "dialHost host = (if \<not> Contains host '':'' then host @ '':80'' else host)"

text \<open>Lines 82 to 85: \<^verbatim>\<open>p.Dial\<close>, or \<^verbatim>\<open>net.Dial\<close> when it is nil.\<close>

definition dialer :: "ReverseProxy \<Rightarrow> env \<Rightarrow> string \<Rightarrow> string \<Rightarrow> err + conn" where
  "dialer p e = (case Dial p of None \<Rightarrow> netDial e | Some f \<Rightarrow> f)"

text \<open>
  \<^verbatim>\<open>ServeHTTP(w, r)\<close>: the outcome, the store and the response writer it leaves,
  and its calls. The two deferred calls run when the function returns after line 106,
  last deferred first: \<^verbatim>\<open>d.Close()\<close>, then \<^verbatim>\<open>nc.Close()\<close>.
\<close>

definition ServeHTTP ::
  "ReverseProxy \<Rightarrow> env \<Rightarrow> store \<Rightarrow> ResponseWriter \<Rightarrow> nat
     \<Rightarrow> outcome \<times> store \<times> ResponseWriter \<times> event list" where
  "ServeHTTP p e s w r =
     (let logFunc = LogCall (ErrorLog p) in
      (case reqs s r of
         None \<Rightarrow> (Panicked NilPointerDereference, s, w, [])
       | Some rv \<Rightarrow>
           (let outreq = nextReq s;
                s0 = s\<lparr>reqs := (reqs s)(outreq \<mapsto> rv), nextReq := Suc outreq\<rparr>
            in
            (case Director p s0 outreq of
               Inl x \<Rightarrow> (Panicked x, s0, w, [])
             | Inr s1 \<Rightarrow>
                 (case reqs s1 outreq of
                    None \<Rightarrow> (Panicked NilPointerDereference, s1, w, [])
                  | Some ov \<Rightarrow>
                      (case urls s1 (URL ov) of
                         None \<Rightarrow> (Panicked NilPointerDereference, s1, w, [])
                       | Some ou \<Rightarrow>
                           (let host = dialHost (Host ou);
                                dial = dialer p e;
                                t1 = [DialCall ''tcp'' host]
                            in
                            (case dial ''tcp'' host of
                               Inl err \<Rightarrow>
                                 (Returned, s1,
                                  http_Error w ''Error forwarding request.'' 500,
                                  t1 @ [logFunc ''Error dialing websocket backend %s: %v''
                                          [ArgURL ou, ArgErr err]])
                             | Inr d \<Rightarrow>
                                 (case hijacker w of
                                    None \<Rightarrow>
                                      (Returned, s1, http_Error w ''Not a hijacker?'' 500, t1)
                                  | Some (Inl err) \<Rightarrow>
                                      (Returned, s1, w,
                                       t1 @ [HijackCall,
                                             logFunc ''Hijack error: %v'' [ArgErr err]])
                                  | Some (Inr nc) \<Rightarrow>
                                      (let t2 = t1 @ [HijackCall, WriteCall d outreq] in
                                       (case writeResult e of
                                          Some err \<Rightarrow>
                                            (Returned, s1, w,
                                             t2 @ [logFunc
                                                     ''Error copying request to target: %v''
                                                     [ArgErr err],
                                                   CloseCall d, CloseCall nc])
                                        | None \<Rightarrow>
                                            (if relayDone e
                                             then (Returned, s1, w,
                                                   t2 @ [GoCopy d nc, GoCopy nc d,
                                                         CloseCall d, CloseCall nc])
                                             else (Blocked, s1, w,
                                                   t2 @ [GoCopy d nc, GoCopy nc d])))))))))))))"

subsection \<open>Notions the properties are stated with\<close>

text \<open>
  The seam of a join: \<open>singleJoiningSlash a b\<close> always starts with \<open>a\<close> and has
  the separating slash at \<open>seamIndex a\<close> (the last byte of \<open>a\<close> when \<open>a\<close> ends with
  a slash, the byte after \<open>a\<close> otherwise). There is a double slash at the seam when the
  byte before or the byte after the separating slash is a slash too.
\<close>

definition seamIndex :: "string \<Rightarrow> nat" where
  "seamIndex a = (if HasSuffix a ''/'' then length a - 1 else length a)"

definition doubleSlashAtSeam :: "string \<Rightarrow> string \<Rightarrow> bool" where
  "doubleSlashAtSeam a b =
     (let r = singleJoiningSlash a b; i = seamIndex a in
        (0 < i \<and> r ! (i - 1) = CHR ''/'') \<or> (Suc i < length r \<and> r ! Suc i = CHR ''/''))"

text \<open>
  Following the words of the specification, not the code: a host \<open>carries an explicit
  port\<close> in the \<^verbatim>\<open>host[:port]\<close> syntax of a URL authority, where an IPv6 literal
  is written in brackets and its own colons are no port delimiter. The port delimiter is
  a colon after the last closing bracket (anywhere, when there is no bracket).
\<close>

definition spec_hasExplicitPort :: "string \<Rightarrow> bool" where
  "spec_hasExplicitPort host = (CHR '':'' \<in> set (takeWhile (\<lambda>c. c \<noteq> CHR '']'') (rev host)))"

text \<open>
  A store for examples: at address 0 the target \<^verbatim>\<open>ws://backend:8080/base?x=1\<close>, at
  address 1 the URL \<^verbatim>\<open>/chat?y=2\<close> of the inbound request, which is request 0.
\<close>

definition exampleTarget :: URL where
  "exampleTarget = \<lparr>Scheme = ''ws'', Opaque = [], User = None, Host = ''backend:8080'',
     Path = ''/base'', RawPath = [], RawQuery = ''x=1'', Fragment = []\<rparr>"

definition exampleURL :: URL where
  "exampleURL = \<lparr>Scheme = [], Opaque = [], User = None, Host = [],
     Path = ''/chat'', RawPath = [], RawQuery = ''y=2'', Fragment = ''top''\<rparr>"

definition exampleRequest :: Request where
  "exampleRequest = \<lparr>Method = ''GET'', URL = 1, Proto = ''HTTP/1.1'',
     Header = [''Connection'' \<mapsto> [''Upgrade''], ''Upgrade'' \<mapsto> [''WebSocket'']],
     Body = None, RequestURI = ''/chat?y=2''\<rparr>"

definition exampleStore :: store where
  "exampleStore = \<lparr>urls = [0 \<mapsto> exampleTarget, 1 \<mapsto> exampleURL],
     reqs = [0 \<mapsto> exampleRequest], nextReq = 1\<rparr>"

definition exampleProxy :: ReverseProxy where
  "exampleProxy = \<lparr>Director = director 0 ''x=1'', Dial = None, ErrorLog = None\<rparr>"

text \<open>
  An environment in which the dial gives connection 7 and nothing fails, and a response
  writer that is a Hijacker and hands out the client connection 8.
\<close>

definition exampleEnv :: env where
  "exampleEnv = \<lparr>netDial = (\<lambda>network addr. Inr 7), writeResult = None, relayDone = True\<rparr>"

definition exampleWriter :: ResponseWriter where
  "exampleWriter = \<lparr>wHeader = Map.empty, wStatus = None, wBody = [],
     hijacker = Some (Inr 8)\<rparr>"

section \<open>Properties\<close>

subsection \<open>The string functions\<close>

lemma HasSuffix_slash: "HasSuffix a ''/'' \<longleftrightarrow> (\<exists>a0. a = a0 @ ''/'')"
  by (cases a rule: rev_cases) (auto simp: HasSuffix_def)

lemma HasPrefix_slash: "HasPrefix b ''/'' \<longleftrightarrow> (\<exists>b0. b = ''/'' @ b0)"
  by (cases b) (auto simp: HasPrefix_def)

lemma list_shape_rev:
  "a = [] \<or> (\<exists>x. a = [x]) \<or> (\<exists>a2 y x. a = a2 @ [y, x])"
proof (cases a rule: rev_cases)
  case Nil
  then show ?thesis by simp
next
  case (snoc a1 x)
  then show ?thesis by (cases a1 rule: rev_cases) auto
qed

lemma list_shape:
  "b = [] \<or> (\<exists>c. b = [c]) \<or> (\<exists>c d b2. b = c # d # b2)"
  by (cases b; cases "tl b") auto

lemma seam_is_slash:
  "seamIndex a < length (singleJoiningSlash a b) \<and>
   singleJoiningSlash a b ! seamIndex a = CHR ''/'' \<and>
   take (length a) (singleJoiningSlash a b) = a"
  by (cases a rule: rev_cases; cases b)
     (auto simp: singleJoiningSlash_def seamIndex_def HasSuffix_def HasPrefix_def nth_append)

lemma seam_iff: "doubleSlashAtSeam a b \<longleftrightarrow> HasSuffix a ''//'' \<or> HasPrefix b ''//''"
  using list_shape_rev [of a] list_shape [of b]
  by (elim disjE exE)
     (auto simp: doubleSlashAtSeam_def seamIndex_def singleJoiningSlash_def
        HasSuffix_def HasPrefix_def nth_append Let_def)

subsection \<open>singleJoiningSlash\<close>

text \<open>
  C4, as the code has it. For all \<open>a\<close> and \<open>b\<close>: when \<open>a\<close> ends with a slash and
  \<open>b\<close> starts with one, the join is \<open>a\<close> followed by \<open>b\<close> without its first slash;
  when neither holds it is \<open>a\<close>, a slash, \<open>b\<close>; otherwise it is \<open>a\<close> followed by
  \<open>b\<close>. Joining \<^verbatim>\<open>/a/\<close> or \<^verbatim>\<open>/a\<close> with \<^verbatim>\<open>/b\<close> gives \<^verbatim>\<open>/a/b\<close>. There
  is a double slash at the seam exactly when \<open>a\<close> already ends with two slashes or
  \<open>b\<close> already starts with two: the join removes at most one slash.
\<close>

theorem singleJoiningSlash_spec:
  "(HasSuffix a ''/'' \<and> HasPrefix b ''/'' \<longrightarrow>
      singleJoiningSlash a b = a @ tl b \<and> singleJoiningSlash a b = butlast a @ b) \<and>
   (\<not> HasSuffix a ''/'' \<and> \<not> HasPrefix b ''/'' \<longrightarrow> singleJoiningSlash a b = a @ ''/'' @ b) \<and>
   (HasSuffix a ''/'' \<noteq> HasPrefix b ''/'' \<longrightarrow> singleJoiningSlash a b = a @ b) \<and>
   singleJoiningSlash ''/a/'' ''/b'' = ''/a/b'' \<and>
   singleJoiningSlash ''/a'' ''/b'' = ''/a/b'' \<and>
   (doubleSlashAtSeam a b \<longleftrightarrow> HasSuffix a ''//'' \<or> HasPrefix b ''//'')"
proof -
  have both: "singleJoiningSlash a b = a @ tl b \<and> singleJoiningSlash a b = butlast a @ b"
    if "HasSuffix a ''/''" and "HasPrefix b ''/''"
  proof -
    from that obtain a0 b0 where "a = a0 @ ''/''" and "b = ''/'' @ b0"
      unfolding HasSuffix_slash HasPrefix_slash by blast
    with that show ?thesis
      by (simp add: singleJoiningSlash_def drop_Suc)
  qed
  have neither: "singleJoiningSlash a b = a @ ''/'' @ b"
    if "\<not> HasSuffix a ''/''" and "\<not> HasPrefix b ''/''"
    using that by (simp add: singleJoiningSlash_def)
  have other: "singleJoiningSlash a b = a @ b" if "HasSuffix a ''/'' \<noteq> HasPrefix b ''/''"
    using that by (auto simp: singleJoiningSlash_def)
  have ex1: "singleJoiningSlash ''/a/'' ''/b'' = ''/a/b''"
    by (simp add: singleJoiningSlash_def HasSuffix_def HasPrefix_def)
  have ex2: "singleJoiningSlash ''/a'' ''/b'' = ''/a/b''"
    by (simp add: singleJoiningSlash_def HasSuffix_def HasPrefix_def)
  from both neither other ex1 ex2 seam_iff [of a b] show ?thesis
    by blast
qed

theorem singleJoiningSlash_spec_witness:
  "HasSuffix ''/a/'' ''/'' \<and> HasPrefix ''/b'' ''/'' \<and>
   singleJoiningSlash ''/a/'' ''/b'' = ''/a/'' @ tl ''/b'' \<and>
   \<not> HasSuffix ''/a'' ''/'' \<and> \<not> HasPrefix ''b'' ''/'' \<and>
   singleJoiningSlash ''/a'' ''b'' = ''/a'' @ ''/'' @ ''b'' \<and>
   HasSuffix ''/a/'' ''/'' \<noteq> HasPrefix ''b'' ''/'' \<and>
   singleJoiningSlash ''/a/'' ''b'' = ''/a/'' @ ''b'' \<and>
   \<not> doubleSlashAtSeam ''/a/'' ''/b''"
proof -
  have h1: "HasSuffix ''/a/'' ''/'' \<and> HasPrefix ''/b'' ''/''"
    by (simp add: HasSuffix_def HasPrefix_def)
  have h2: "\<not> HasSuffix ''/a'' ''/'' \<and> \<not> HasPrefix ''b'' ''/''"
    by (simp add: HasSuffix_def HasPrefix_def)
  have h3: "HasSuffix ''/a/'' ''/'' \<noteq> HasPrefix ''b'' ''/''"
    by (simp add: HasSuffix_def HasPrefix_def)
  have h4: "\<not> (HasSuffix ''/a/'' ''//'' \<or> HasPrefix ''/b'' ''//'')"
    by (simp add: HasSuffix_def HasPrefix_def)
  from h1 h2 h3 h4
    singleJoiningSlash_spec [of "''/a/''" "''/b''"]
    singleJoiningSlash_spec [of "''/a''" "''b''"]
    singleJoiningSlash_spec [of "''/a/''" "''b''"]
  show ?thesis by blast
qed

text \<open>
  Against C4 as the specification words it (never a double slash at the seam): joining
  \<^verbatim>\<open>/a/\<close> with \<^verbatim>\<open>//b\<close> gives \<^verbatim>\<open>/a//b\<close>.
\<close>

theorem singleJoiningSlash_double_slash_counterexample:
  "singleJoiningSlash ''/a/'' ''//b'' = ''/a//b'' \<and> doubleSlashAtSeam ''/a/'' ''//b''"
  by (simp add: doubleSlashAtSeam_def seamIndex_def singleJoiningSlash_def
        HasSuffix_def HasPrefix_def)

subsection \<open>The Director\<close>

lemma director_result:
  assumes "reqs s req = Some rq" and "urls s (URL rq) = Some u" and "urls s target = Some t"
  shows "director target q s req =
           Inr (s\<lparr>urls := (urls s)(URL rq \<mapsto>
                  u\<lparr>Scheme := Scheme t, Host := Host t,
                    Path := singleJoiningSlash (Path t) (Path u),
                    RawQuery := (if q = [] \<or> RawQuery u = [] then q @ RawQuery u
                                 else q @ ''&'' @ RawQuery u)\<rparr>)\<rparr>)"
proof (cases "target = URL rq")
  case True
  with assms have "t = u" by simp
  with assms True show ?thesis
    by (simp add: director_def updURL_def getURL_def Let_def)
next
  case False
  with assms show ?thesis
    by (simp add: director_def updURL_def getURL_def Let_def)
qed

lemma director_Inr:
  assumes "director target q s req = Inr s'"
  obtains rq u t where "reqs s req = Some rq" and "urls s (URL rq) = Some u"
    and "urls s target = Some t"
  using assms by (auto simp: director_def split: option.splits if_splits)

lemma NewSingleHostReverseProxy_Inr:
  assumes "NewSingleHostReverseProxy s0 target = Inr p"
  obtains t0 where "urls s0 target = Some t0"
    and "p = \<lparr>Director = director target (RawQuery t0), Dial = None, ErrorLog = None\<rparr>"
  using assms by (auto simp: NewSingleHostReverseProxy_def split: option.splits)

lemma example_proxy: "NewSingleHostReverseProxy exampleStore 0 = Inr exampleProxy"
  by (simp add: NewSingleHostReverseProxy_def exampleStore_def exampleProxy_def
        exampleTarget_def)

lemma example_reqs: "reqs exampleStore 0 = Some exampleRequest"
  by (simp add: exampleStore_def)

lemma example_urls:
  "urls exampleStore 0 = Some exampleTarget"
  "urls exampleStore (URL exampleRequest) = Some exampleURL"
  by (simp_all add: exampleStore_def exampleRequest_def)

text \<open>
  C5. The proxy is built for a target with query \<open>q1\<close>; its Director runs on a request
  whose URL has query \<open>q2\<close>. The Director succeeds and leaves the request's URL with the
  empty query when both are empty, with the non-empty one when exactly one is non-empty,
  and with \<open>q1 & q2\<close> when both are non-empty.
\<close>

theorem director_query:
  assumes "NewSingleHostReverseProxy s0 target = Inr p"
    and "reqs s req = Some rq" and "urls s (URL rq) = Some u" and "urls s target = Some t"
    and "q1 = RawQuery (getURL s0 target)" and "q2 = RawQuery u"
  shows "\<exists>s'. Director p s req = Inr s' \<and>
           RawQuery (getURL s' (URL rq)) =
             (if q1 = [] \<and> q2 = [] then []
              else if q2 = [] then q1
              else if q1 = [] then q2
              else q1 @ ''&'' @ q2)"
proof -
  from assms(1) obtain t0 where t0: "urls s0 target = Some t0"
    and p: "p = \<lparr>Director = director target (RawQuery t0), Dial = None, ErrorLog = None\<rparr>"
    by (rule NewSingleHostReverseProxy_Inr)
  from t0 assms(5) have q1: "RawQuery t0 = q1"
    by (simp add: getURL_def)
  show ?thesis
    unfolding p
    by (simp add: director_result [OF assms(2-4)] getURL_def q1 assms(6))
qed

theorem director_query_witness:
  "\<exists>s'. Director exampleProxy exampleStore 0 = Inr s' \<and>
         RawQuery (getURL s' (URL exampleRequest)) = ''x=1&y=2''"
  using director_query [OF example_proxy example_reqs example_urls(2) example_urls(1) refl refl]
  by (simp add: getURL_def example_urls exampleTarget_def exampleURL_def)

text \<open>
  C8. The Director has no hidden state: built for equal targets and run on requests with
  equal URLs, in whatever stores and at whatever addresses, it succeeds both times and
  leaves equal URLs. The URL it leaves has the scheme and host of the target, the joined
  path and the merged query, so it is a function of the target and the inbound URL alone.
\<close>

theorem director_deterministic:
  assumes "NewSingleHostReverseProxy s target = Inr p"
    and "NewSingleHostReverseProxy s' target' = Inr p'"
    and "urls s target = urls s' target'"
    and "reqs s req = Some rq" and "reqs s' req' = Some rq'"
    and "urls s (URL rq) = Some u" and "urls s' (URL rq') = Some u"
  shows "\<exists>a b. Director p s req = Inr a \<and> Director p' s' req' = Inr b \<and>
           urls a (URL rq) = urls b (URL rq') \<and>
           urls a (URL rq) =
             Some (u\<lparr>Scheme := Scheme (getURL s target), Host := Host (getURL s target),
                     Path := singleJoiningSlash (Path (getURL s target)) (Path u),
                     RawQuery := (if RawQuery (getURL s target) = [] \<or> RawQuery u = []
                                  then RawQuery (getURL s target) @ RawQuery u
                                  else RawQuery (getURL s target) @ ''&'' @ RawQuery u)\<rparr>)"
proof -
  from assms(1) obtain t where t: "urls s target = Some t"
    and p: "p = \<lparr>Director = director target (RawQuery t), Dial = None, ErrorLog = None\<rparr>"
    by (rule NewSingleHostReverseProxy_Inr)
  from assms(2) obtain t' where t': "urls s' target' = Some t'"
    and p': "p' = \<lparr>Director = director target' (RawQuery t'), Dial = None, ErrorLog = None\<rparr>"
    by (rule NewSingleHostReverseProxy_Inr)
  from t t' assms(3) have eq: "t' = t" by simp
  show ?thesis
    unfolding p p'
    by (simp add: director_result [OF assms(4) assms(6) t]
          director_result [OF assms(5) assms(7) t'] eq getURL_def t)
qed

theorem director_deterministic_witness:
  "\<exists>a b. Director exampleProxy exampleStore 0 = Inr a \<and>
         Director exampleProxy exampleStore 0 = Inr b \<and>
         urls a (URL exampleRequest) = urls b (URL exampleRequest) \<and>
         urls a (URL exampleRequest) =
           Some (exampleURL\<lparr>Scheme := ''ws'', Host := ''backend:8080'',
                   Path := ''/base/chat'', RawQuery := ''x=1&y=2''\<rparr>)"
  using director_deterministic [OF example_proxy example_proxy refl example_reqs example_reqs
      example_urls(2) example_urls(2)]
  by (simp add: getURL_def example_urls exampleTarget_def exampleURL_def
        singleJoiningSlash_def HasSuffix_def HasPrefix_def)

text \<open>
  C10. On a request that is not nil, with a URL and a target that are not nil, the
  Director of NewSingleHostReverseProxy succeeds, and afterwards: every request object,
  this one included (method, URL pointer, header, body reference), is as before; every
  URL object other than the request's is as before; and the request's URL differs from
  what it was in the fields Scheme, Host, Path and RawQuery only (Opaque, User, RawPath
  and Fragment are as before).
\<close>

theorem director_frame:
  assumes "NewSingleHostReverseProxy s0 target = Inr p"
    and "reqs s req = Some rq" and "urls s (URL rq) = Some u" and "urls s target = Some t"
  shows "\<exists>s' u'. Director p s req = Inr s' \<and>
           reqs s' = reqs s \<and> nextReq s' = nextReq s \<and>
           Method (the (reqs s' req)) = Method rq \<and>
           Header (the (reqs s' req)) = Header rq \<and>
           Body (the (reqs s' req)) = Body rq \<and>
           URL (the (reqs s' req)) = URL rq \<and>
           (\<forall>a. a \<noteq> URL rq \<longrightarrow> urls s' a = urls s a) \<and>
           urls s' (URL rq) = Some u' \<and>
           Opaque u' = Opaque u \<and> User u' = User u \<and>
           RawPath u' = RawPath u \<and> Fragment u' = Fragment u \<and>
           u' = u\<lparr>Scheme := Scheme u', Host := Host u', Path := Path u',
                   RawQuery := RawQuery u'\<rparr>"
proof -
  from assms(1) obtain t0 where "urls s0 target = Some t0" and
    p: "p = \<lparr>Director = director target (RawQuery t0), Dial = None, ErrorLog = None\<rparr>"
    by (rule NewSingleHostReverseProxy_Inr)
  show ?thesis
    unfolding p using assms(2)
    by (simp add: director_result [OF assms(2-4)])
qed

theorem director_frame_witness:
  "\<exists>s' u'. Director exampleProxy exampleStore 0 = Inr s' \<and>
     reqs s' = reqs exampleStore \<and>
     Method (the (reqs s' 0)) = ''GET'' \<and> Body (the (reqs s' 0)) = None \<and>
     urls s' 0 = Some exampleTarget \<and>
     urls s' 1 = Some u' \<and> Fragment u' = ''top'' \<and> Opaque u' = [] \<and>
     User u' = None \<and> RawPath u' = []"
proof -
  from director_frame [OF example_proxy example_reqs example_urls(2) example_urls(1)]
  obtain s' u' where "Director exampleProxy exampleStore 0 = Inr s'"
    and "reqs s' = reqs exampleStore"
    and "Method (the (reqs s' 0)) = Method exampleRequest"
    and "Body (the (reqs s' 0)) = Body exampleRequest"
    and "\<forall>a. a \<noteq> URL exampleRequest \<longrightarrow> urls s' a = urls exampleStore a"
    and "urls s' (URL exampleRequest) = Some u'"
    and "Opaque u' = Opaque exampleURL" and "User u' = User exampleURL"
    and "RawPath u' = RawPath exampleURL" and "Fragment u' = Fragment exampleURL"
    by blast
  then have "Director exampleProxy exampleStore 0 = Inr s' \<and>
     reqs s' = reqs exampleStore \<and>
     Method (the (reqs s' 0)) = ''GET'' \<and> Body (the (reqs s' 0)) = None \<and>
     urls s' 0 = Some exampleTarget \<and>
     urls s' 1 = Some u' \<and> Fragment u' = ''top'' \<and> Opaque u' = [] \<and>
     User u' = None \<and> RawPath u' = []"
    using example_urls(1) by (simp add: exampleRequest_def exampleURL_def)
  then show ?thesis by blast
qed

subsection \<open>IsWebSocketRequest\<close>

lemma canonical_keys:
  "CanonicalMIMEHeaderKey ''Connection'' = ''Connection''"
  "CanonicalMIMEHeaderKey ''Upgrade'' = ''Upgrade''"
  by code_simp+

lemma Get_first:
  "Get h ''Connection'' = (case h ''Connection'' of Some (v # vs) \<Rightarrow> v | _ \<Rightarrow> [])"
  "Get h ''Upgrade'' = (case h ''Upgrade'' of Some (v # vs) \<Rightarrow> v | _ \<Rightarrow> [])"
  by (simp_all add: Get_def canonical_keys split: option.splits list.splits)

lemma ToLower_examples:
  "ToLower ul ''Upgrade'' = ''upgrade''"
  "ToLower ul ''WebSocket'' = ''websocket''"
  "ToLower ul ''keep-alive'' = ''keep-alive''"
  "ToLower ul [] = []"
  by code_simp+



text \<open>
  C9. Only the first value under each header key is read. A request whose Connection
  header has a first value that does not lower-case to \<^verbatim>\<open>upgrade\<close> is no WebSocket
  request, whatever the later values are: so with the values keep-alive, Upgrade. And
  the values after the first, of either header, never change the answer.
\<close>

theorem IsWebSocketRequest_first_value:
  "(Header r ''Connection'' = Some (v # vs) \<and> ToLower ul v \<noteq> ''upgrade'' \<longrightarrow>
      \<not> IsWebSocketRequest ul r) \<and>
   \<not> IsWebSocketRequest ul
       (r\<lparr>Header := h(''Connection'' \<mapsto> [''keep-alive'', ''Upgrade''])\<rparr>) \<and>
   IsWebSocketRequest ul (r\<lparr>Header := h(''Connection'' \<mapsto> c # cs, ''Upgrade'' \<mapsto> w # ws)\<rparr>) =
   IsWebSocketRequest ul (r\<lparr>Header := h(''Connection'' \<mapsto> [c], ''Upgrade'' \<mapsto> [w])\<rparr>)"
  by (simp add: IsWebSocketRequest_def Get_first ToLower_examples)

theorem IsWebSocketRequest_first_value_witness:
  "Header (exampleRequest\<lparr>Header := [''Connection'' \<mapsto> [''keep-alive'', ''Upgrade''],
       ''Upgrade'' \<mapsto> [''websocket'']]\<rparr>) ''Connection'' = Some (''keep-alive'' # [''Upgrade'']) \<and>
   ToLower (\<lambda>s. s) ''keep-alive'' \<noteq> ''upgrade'' \<and>
   \<not> IsWebSocketRequest (\<lambda>s. s)
       (exampleRequest\<lparr>Header := [''Connection'' \<mapsto> [''keep-alive'', ''Upgrade''],
          ''Upgrade'' \<mapsto> [''websocket'']]\<rparr>)"
proof -
  have h: "Header (exampleRequest\<lparr>Header := [''Connection'' \<mapsto> [''keep-alive'', ''Upgrade''],
       ''Upgrade'' \<mapsto> [''websocket'']]\<rparr>) ''Connection'' = Some (''keep-alive'' # [''Upgrade'']) \<and>
     ToLower (\<lambda>s. s) ''keep-alive'' \<noteq> ''upgrade''"
    by (simp add: ToLower_examples)
  with IsWebSocketRequest_first_value [of
      "exampleRequest\<lparr>Header := [''Connection'' \<mapsto> [''keep-alive'', ''Upgrade''],
          ''Upgrade'' \<mapsto> [''websocket'']]\<rparr>" "''keep-alive''" "[''Upgrade'']" "\<lambda>s. s"]
  show ?thesis by blast
qed

subsection \<open>ServeHTTP\<close>

lemma Contains_colon: "Contains host '':'' \<longleftrightarrow> CHR '':'' \<in> set host"
  by (induction host) (auto simp: HasPrefix_def)

lemma dialHost_no_bracket:
  "CHR '']'' \<notin> set host \<Longrightarrow>
   dialHost host = (if spec_hasExplicitPort host then host else host @ '':80'')"
proof -
  assume "CHR '']'' \<notin> set host"
  then have tw: "takeWhile (\<lambda>c. c \<noteq> CHR '']'') (rev host) = rev host"
    by (auto simp: takeWhile_eq_all_conv)
  show ?thesis
    unfolding dialHost_def spec_hasExplicitPort_def tw by (simp add: Contains_colon)
qed

lemma dialHost_examples:
  "dialHost ''example.com'' = ''example.com:80''"
  "dialHost ''example.com:9000'' = ''example.com:9000''"
  by (simp_all add: dialHost_def Contains_colon)

lemmas example_defs =
  exampleProxy_def exampleEnv_def exampleStore_def exampleWriter_def exampleTarget_def
  exampleURL_def exampleRequest_def

lemmas run_defs =
  ServeHTTP_def director_def updURL_def getURL_def dialer_def http_Error_def dialHost_def
  singleJoiningSlash_def HasSuffix_def HasPrefix_def Contains_colon Let_def

text \<open>
  C6. The host \<^verbatim>\<open>[::1]\<close>, an IPv6 literal with no port, is dialled as it is and not
  with port 80: the test for a port is the presence of a colon anywhere in the host.
\<close>

theorem dialHost_ipv6_literal:
  "\<not> spec_hasExplicitPort ''[::1]'' \<and> dialHost ''[::1]'' = ''[::1]'' \<and>
   dialHost ''[::1]'' \<noteq> ''[::1]'' @ '':80'' \<and>
   (case ServeHTTP exampleProxy (exampleEnv\<lparr>netDial := (\<lambda>network addr. Inl ''missing port in address'')\<rparr>)
           (exampleStore\<lparr>urls := (urls exampleStore)(0 \<mapsto> exampleTarget\<lparr>Host := ''[::1]''\<rparr>)\<rparr>)
           exampleWriter 0 of
      (out, s', w', tr) \<Rightarrow>
        DialCall ''tcp'' ''[::1]'' \<in> set tr \<and> DialCall ''tcp'' ''[::1]:80'' \<notin> set tr \<and>
        wStatus w' = Some 500)"
  by (simp add: spec_hasExplicitPort_def dialHost_def Contains_colon ServeHTTP_def exampleProxy_def
        exampleEnv_def exampleStore_def exampleWriter_def exampleTarget_def exampleURL_def
        exampleRequest_def director_def updURL_def getURL_def dialer_def http_Error_def Let_def)




text \<open>
  C1. The target is \<^verbatim>\<open>ws://backend:8080/base?x=1\<close> and the request is for
  \<^verbatim>\<open>/chat?y=2\<close>. After ServeHTTP the caller's request object is as it was, URL
  pointer included, but the URL object it points to, which the copy shares, has the
  scheme, host, path and query that the Director wrote.
\<close>

theorem ServeHTTP_rewrites_original_URL:
  "case ServeHTTP exampleProxy exampleEnv exampleStore exampleWriter 0 of
     (out, s', w', tr) \<Rightarrow>
       out = Returned \<and>
       reqs exampleStore 0 = Some exampleRequest \<and> reqs s' 0 = Some exampleRequest \<and>
       urls exampleStore (URL exampleRequest) = Some exampleURL \<and>
       urls s' (URL exampleRequest) =
         Some (exampleURL\<lparr>Scheme := ''ws'', Host := ''backend:8080'',
                 Path := ''/base/chat'', RawQuery := ''x=1&y=2''\<rparr>) \<and>
       urls s' (URL exampleRequest) \<noteq> urls exampleStore (URL exampleRequest)"
  by (simp add: example_defs run_defs)

text \<open>
  C2. The dial gives the backend connection 7. When the response writer is no Hijacker,
  and when Hijack fails, ServeHTTP returns without closing connection 7: the two
  deferred closes are registered only after Hijack has succeeded. When writing the
  request to the backend fails, both connections are closed once.
\<close>

theorem ServeHTTP_backend_left_open:
  "(case ServeHTTP exampleProxy exampleEnv exampleStore (exampleWriter\<lparr>hijacker := None\<rparr>) 0 of
      (out, s', w', tr) \<Rightarrow>
        out = Returned \<and> tr = [DialCall ''tcp'' ''backend:8080''] \<and>
        count_list tr (CloseCall 7) = 0) \<and>
   (case ServeHTTP exampleProxy exampleEnv exampleStore
           (exampleWriter\<lparr>hijacker := Some (Inl ''hijack failed'')\<rparr>) 0 of
      (out, s', w', tr) \<Rightarrow>
        out = Returned \<and>
        tr = [DialCall ''tcp'' ''backend:8080'', HijackCall,
              LogCall None ''Hijack error: %v'' [ArgErr ''hijack failed'']] \<and>
        count_list tr (CloseCall 7) = 0) \<and>
   (case ServeHTTP exampleProxy (exampleEnv\<lparr>writeResult := Some ''broken pipe''\<rparr>)
           exampleStore exampleWriter 0 of
      (out, s', w', tr) \<Rightarrow>
        out = Returned \<and> count_list tr (CloseCall 7) = 1 \<and> count_list tr (CloseCall 8) = 1)"
  by (simp add: example_defs run_defs)

lemma ServeHTTP_hijack_failure_no_close:
  assumes "ServeHTTP p e s w r = (out, s', w', tr)"
    and "hijacker w = None \<or> (\<exists>x. hijacker w = Some (Inl x))"
  shows "CloseCall c \<notin> set tr"
  using assms
  by (auto simp: ServeHTTP_def Let_def split: option.splits sum.splits if_splits)

lemma ServeHTTP_after_hijack_closes:
  assumes "ServeHTTP p e s w r = (out, s', w', tr)"
    and "HijackCall \<in> set tr" and "hijacker w = Some (Inr nc)" and "out = Returned"
    and "DialCall network addr \<in> set tr" and "dialer p e network addr = Inr d" and "d \<noteq> nc"
  shows "count_list tr (CloseCall d) = 1 \<and> count_list tr (CloseCall nc) = 1"
  using assms
  by (auto simp: ServeHTTP_def Let_def split: option.splits sum.splits if_splits)


lemma ServeHTTP_shares_URL:
  assumes "reqs s r = Some rv" and "urls s (URL rv) = Some u" and "urls s target = Some t"
    and "Director p = director target q"
    and "ServeHTTP p e s w r = (out, s', w', tr)"
  shows "reqs s' r = Some rv \<and>
         urls s' (URL rv) =
           Some (u\<lparr>Scheme := Scheme t, Host := Host t,
                   Path := singleJoiningSlash (Path t) (Path u),
                   RawQuery := (if q = [] \<or> RawQuery u = [] then q @ RawQuery u
                                else q @ ''&'' @ RawQuery u)\<rparr>)"
proof -
  let ?s0 = "s\<lparr>reqs := (reqs s)(nextReq s \<mapsto> rv), nextReq := Suc (nextReq s)\<rparr>"
  have d: "Director p ?s0 (nextReq s) =
      Inr (?s0\<lparr>urls := (urls ?s0)(URL rv \<mapsto>
                  u\<lparr>Scheme := Scheme t, Host := Host t,
                    Path := singleJoiningSlash (Path t) (Path u),
                    RawQuery := (if q = [] \<or> RawQuery u = [] then q @ RawQuery u
                                 else q @ ''&'' @ RawQuery u)\<rparr>)\<rparr>)"
    unfolding assms(4) using assms(2,3) by (intro director_result) simp_all
  from assms(5) show ?thesis
    by (auto simp: ServeHTTP_def Let_def d assms(1) split: option.splits sum.splits if_splits)
qed

end
